theory Spec2Isabelle
  imports Complex_Main "HOL-Library.Multiset"
begin

section \<open>Python values and exceptions\<close>

text \<open>
  Python floats are modelled by exact reals: every arithmetic step of the source is kept,
  in the source's order, but without binary rounding. A dynamically typed argument is a
  \<open>pyval\<close>; an exception is a value of \<open>py_error\<close> carrying \<open>str(e)\<close>, and a function
  that can raise returns \<open>py_error + 'a\<close>.
\<close>

datatype pyval = PNum real | PStr string | PNone

datatype py_error =
    KeyError string
  | TypeError string
  | AttributeError string
  | RuntimeError string
  | ValueError string


text \<open>\<open>str.lower()\<close> on the ASCII letters; every other byte is left as it is.\<close>

definition lower_char :: "char \<Rightarrow> char" where
  "lower_char c =
     (case map_of (zip ''ABCDEFGHIJKLMNOPQRSTUVWXYZ'' ''abcdefghijklmnopqrstuvwxyz'') c of
        Some l \<Rightarrow> l
      | None \<Rightarrow> c)"

definition lower :: "string \<Rightarrow> string" where
  "lower s = map lower_char s"

section \<open>emissions/emissions_calculator.py\<close>

type_synonym vehicle_factors = "string \<rightharpoonup> real"
type_synonym emission_factors = "string \<rightharpoonup> vehicle_factors"

definition default_emission_factors :: emission_factors where
  "default_emission_factors = map_of
     [(''Delivery Van'', map_of [(''base_emission_rate'', 275), (''fuel_efficiency'', 12),
                                 (''payload_factor'', 0.05)]),
      (''Box Truck'', map_of [(''base_emission_rate'', 450), (''fuel_efficiency'', 8),
                              (''payload_factor'', 0.08)]),
      (''Semi-Truck'', map_of [(''base_emission_rate'', 900), (''fuel_efficiency'', 6),
                               (''payload_factor'', 0.1)]),
      (''Electric Vehicle'', map_of [(''base_emission_rate'', 50), (''fuel_efficiency'', 100),
                                     (''payload_factor'', 0.03)])]"

text \<open>The speed adjustment: \<open>avg_speed_mph < 30\<close>, \<open>elif avg_speed_mph > 75\<close>, \<open>else\<close>.\<close>

definition speed_factor :: "pyval \<Rightarrow> py_error + real" where
  "speed_factor avg_speed_mph =
     (case avg_speed_mph of
        PNum s \<Rightarrow> Inr (if s < 30 then 1.2 else if s > 75 then 1.15 else 1.0)
      | PStr _ \<Rightarrow> Inl (TypeError ''< not supported between str and int'')
      | PNone \<Rightarrow> Inl (TypeError ''< not supported between NoneType and int''))"

definition gradient_factor :: "pyval \<Rightarrow> py_error + real" where
  "gradient_factor gradient =
     (case gradient of
        PNum g \<Rightarrow> Inr (1.0 + (\<bar>g\<bar> * 0.02))
      | PStr _ \<Rightarrow> Inl (TypeError ''bad operand type for abs(): str'')
      | PNone \<Rightarrow> Inl (TypeError ''bad operand type for abs(): NoneType''))"

definition payload_factor :: "vehicle_factors \<Rightarrow> pyval \<Rightarrow> py_error + real" where
  "payload_factor vehicle_factors payload_kg =
     (case payload_kg of
        PNum p \<Rightarrow>
          (case vehicle_factors ''payload_factor'' of
             None \<Rightarrow> Inl (KeyError ''payload_factor'')
           | Some f \<Rightarrow> Inr (1.0 + (p / 100 * f)))
      | PStr _ \<Rightarrow> Inl (TypeError ''unsupported operand type(s) for /: str and int'')
      | PNone \<Rightarrow> Inl (TypeError ''unsupported operand type(s) for /: NoneType and int''))"

definition traffic_factor :: "pyval \<Rightarrow> py_error + real" where
  "traffic_factor traffic_congestion =
     (case traffic_congestion of
        PNum t \<Rightarrow> Inr (1.0 + (t * 0.3))
      | PStr _ \<Rightarrow> Inl (TypeError ''cannot multiply sequence by non-int of type float'')
      | PNone \<Rightarrow> Inl (TypeError ''unsupported operand type(s) for *: NoneType and float''))"

definition weather_factor :: "pyval \<Rightarrow> py_error + real" where
  "weather_factor weather_conditions =
     (case weather_conditions of
        PStr w \<Rightarrow>
          Inr (if lower w = ''rain'' then 1.05
               else if lower w = ''snow'' then 1.1
               else if lower w = ''strong wind'' then 1.08
               else 1.0)
      | PNum _ \<Rightarrow> Inl (AttributeError ''float object has no attribute lower'')
      | PNone \<Rightarrow> Inl (AttributeError ''NoneType object has no attribute lower''))"

text \<open>The body of the \<open>try\<close> block of \<open>EmissionsCalculator.calculate_emissions\<close>.\<close>

definition calculate_emissions_try ::
  "emission_factors \<Rightarrow> real \<Rightarrow> string \<Rightarrow> pyval \<Rightarrow> pyval \<Rightarrow> pyval \<Rightarrow> pyval \<Rightarrow> pyval
     \<Rightarrow> py_error + real" where
  "calculate_emissions_try factors distance_miles vehicle_type avg_speed_mph gradient payload_kg
       traffic_congestion weather_conditions =
     (let vehicle_type' = (if factors vehicle_type = None then ''Delivery Van'' else vehicle_type)
      in case factors vehicle_type' of
           None \<Rightarrow> Inl (KeyError vehicle_type')
         | Some vehicle_factors \<Rightarrow>
             let distance_km = distance_miles * 1.60934
             in case vehicle_factors ''base_emission_rate'' of
                  None \<Rightarrow> Inl (KeyError ''base_emission_rate'')
                | Some rate \<Rightarrow>
                    let base_emissions = distance_km * rate
                    in case speed_factor avg_speed_mph of
                         Inl e \<Rightarrow> Inl e
                       | Inr speed_f \<Rightarrow>
                    case gradient_factor gradient of
                         Inl e \<Rightarrow> Inl e
                       | Inr gradient_f \<Rightarrow>
                    case payload_factor vehicle_factors payload_kg of
                         Inl e \<Rightarrow> Inl e
                       | Inr payload_f \<Rightarrow>
                    case traffic_factor traffic_congestion of
                         Inl e \<Rightarrow> Inl e
                       | Inr traffic_f \<Rightarrow>
                    case weather_factor weather_conditions of
                         Inl e \<Rightarrow> Inl e
                       | Inr weather_f \<Rightarrow>
                           let total_emissions_g = base_emissions * speed_f * gradient_f * payload_f * traffic_f * weather_f
                           in Inr (total_emissions_g / 1000))"

text \<open>\<open>try: ... except Exception: return distance_miles * 0.4\<close>.\<close>

definition calculate_emissions ::
  "emission_factors \<Rightarrow> real \<Rightarrow> string \<Rightarrow> pyval \<Rightarrow> pyval \<Rightarrow> pyval \<Rightarrow> pyval \<Rightarrow> pyval \<Rightarrow> real" where
  "calculate_emissions factors distance_miles vehicle_type avg_speed_mph gradient payload_kg
       traffic_congestion weather_conditions =
     (case calculate_emissions_try factors distance_miles vehicle_type avg_speed_mph gradient
             payload_kg traffic_congestion weather_conditions of
        Inr total_emissions_kg \<Rightarrow> total_emissions_kg
      | Inl e \<Rightarrow> distance_miles * 0.4)"

subsection \<open>The factor model as the specification words it\<close>

definition spec_speed_factor :: "real \<Rightarrow> real" where
  "spec_speed_factor avg_speed = (if avg_speed < 30 then 1.2 else if avg_speed > 75 then 1.15 else 1.0)"

definition spec_gradient_factor :: "real \<Rightarrow> real" where
  "spec_gradient_factor gradient_pct = 1 + 0.02 * \<bar>gradient_pct\<bar>"

definition spec_payload_factor :: "real \<Rightarrow> real \<Rightarrow> real" where
  "spec_payload_factor payload_kg vehicle_payload_factor =
     1 + (payload_kg / 100) * vehicle_payload_factor"

definition spec_traffic_factor :: "real \<Rightarrow> real" where
  "spec_traffic_factor traffic_congestion = 1 + 0.3 * traffic_congestion"

definition spec_weather_factor :: "string \<Rightarrow> real" where
  "spec_weather_factor weather =
     (if lower weather = ''rain'' then 1.05
      else if lower weather = ''snow'' then 1.10
      else if lower weather = ''strong wind'' then 1.08
      else 1.0)"

section \<open>prototype.py and config/settings.py\<close>

text \<open>
  \<open>settings.get_emission_factor\<close>: the module-level configuration is \<open>None\<close> until
  \<open>load_config\<close> has run, and then the call raises \<open>RuntimeError\<close>; otherwise it is
  \<open>emission_factors.get(fuel_type, 0.0)\<close>.
\<close>

definition get_emission_factor :: "(string \<rightharpoonup> real) option \<Rightarrow> pyval \<Rightarrow> py_error + real" where
  "get_emission_factor config fuel_type =
     (case config of
        None \<Rightarrow> Inl (RuntimeError ''Configuration not loaded. Call load_config() first.'')
      | Some emission_factors \<Rightarrow>
          Inr (case fuel_type of
                 PStr f \<Rightarrow> (case emission_factors f of Some v \<Rightarrow> v | None \<Rightarrow> 0.0)
               | _ \<Rightarrow> 0.0))"

definition float_mul :: "real \<Rightarrow> pyval \<Rightarrow> py_error + real" where
  "float_mul x v =
     (case v of
        PNum y \<Rightarrow> Inr (x * y)
      | PStr _ \<Rightarrow> Inl (TypeError ''cannot multiply sequence by non-int of type float'')
      | PNone \<Rightarrow> Inl (TypeError ''unsupported operand type(s) for *: float and NoneType''))"

text \<open>The body of the \<open>try\<close> block of \<open>calculate_emissions\<close> in prototype.py.\<close>

definition prototype_calculate_emissions_try ::
  "(string \<rightharpoonup> real) option \<Rightarrow> real \<Rightarrow> (string \<rightharpoonup> pyval) \<Rightarrow> py_error + real" where
  "prototype_calculate_emissions_try config distance_meters vehicle_config =
     (let distance_km = distance_meters / 1000.0
      in case vehicle_config ''fuel_efficiency_l_per_100km'' of
           Some efficiency \<Rightarrow>
             (case float_mul distance_km efficiency of
                Inl e \<Rightarrow> Inl e
              | Inr used \<Rightarrow>
                  let liters_used = used / 100.0;
                      fuel_type = (case vehicle_config ''fuel_type'' of
                                     None \<Rightarrow> PStr ''diesel'' | Some f \<Rightarrow> f)
                  in case get_emission_factor config fuel_type of
                       Inl e \<Rightarrow> Inl e
                     | Inr emission_factor \<Rightarrow> Inr (liters_used * emission_factor))
         | None \<Rightarrow>
             (case vehicle_config ''energy_efficiency_kwh_per_100km'' of
                Some efficiency \<Rightarrow>
                  (case float_mul distance_km efficiency of
                     Inl e \<Rightarrow> Inl e
                   | Inr used \<Rightarrow>
                       let kwh_used = used / 100.0
                       in case get_emission_factor config (PStr ''electric'') of
                            Inl e \<Rightarrow> Inl e
                          | Inr emission_factor \<Rightarrow> Inr (kwh_used * emission_factor))
              | None \<Rightarrow> Inr 0))"

definition prototype_calculate_emissions ::
  "(string \<rightharpoonup> real) option \<Rightarrow> real \<Rightarrow> (string \<rightharpoonup> pyval) \<Rightarrow> real" where
  "prototype_calculate_emissions config distance_meters vehicle_config =
     (case prototype_calculate_emissions_try config distance_meters vehicle_config of
        Inr emissions \<Rightarrow> emissions
      | Inl e \<Rightarrow> 0)"

section \<open>route_engine/route_optimizer.py: the result cache\<close>

type_synonym point = "real \<times> real"

record 'a cache_entry =
  data :: 'a
  timestamp :: real

text \<open>
  The part of the optimizer object that the cache methods read and write. \<open>time.time()\<close>
  is the argument \<open>now\<close> of each method.
\<close>

record 'a cache_state =
  cache :: "string \<rightharpoonup> 'a cache_entry"
  cache_ttl :: real

definition init_cache_state :: "'a cache_state" where
  "init_cache_state = \<lparr>cache = Map.empty, cache_ttl = 600\<rparr>"

definition get_from_cache :: "'a cache_state \<Rightarrow> real \<Rightarrow> string \<Rightarrow> 'a option" where
  "get_from_cache st now key =
     (case cache st key of
        Some entry \<Rightarrow> if now - timestamp entry < cache_ttl st then Some (data entry) else None
      | None \<Rightarrow> None)"

definition add_to_cache :: "'a cache_state \<Rightarrow> real \<Rightarrow> string \<Rightarrow> 'a \<Rightarrow> 'a cache_state" where
  "add_to_cache st now key d = st\<lparr>cache := (cache st)(key \<mapsto> \<lparr>data = d, timestamp = now\<rparr>)\<rparr>"

subsection \<open>The cache key\<close>

text \<open>\<open>sep.join(xs)\<close>.\<close>

fun join :: "string \<Rightarrow> string list \<Rightarrow> string" where
  "join sep [] = []"
| "join sep [x] = x"
| "join sep (x # y # ys) = x @ sep @ join sep (y # ys)"

text \<open>
  The f-string prints each coordinate with Python's own float formatting, which is the
  parameter \<open>fmt\<close>. \<open>not stops\<close> holds for \<open>None\<close> and for the empty list.
\<close>

definition generate_cache_key ::
  "(real \<Rightarrow> string) \<Rightarrow> point \<Rightarrow> point \<Rightarrow> point list option \<Rightarrow> string \<Rightarrow> string \<Rightarrow> string" where
  "generate_cache_key fmt origin destination stops vehicle_type criteria =
     (let stops_str =
            (case stops of
               None \<Rightarrow> []
             | Some ss \<Rightarrow>
                 if ss = [] then []
                 else join ''-'' (map (\<lambda>s. fmt (fst s) @ '':'' @ fmt (snd s)) ss))
      in fmt (fst origin) @ '':'' @ fmt (snd origin) @ ''-'' @
         fmt (fst destination) @ '':'' @ fmt (snd destination) @ ''-'' @
         stops_str @ ''-'' @ vehicle_type @ ''-'' @ criteria)"

section \<open>route_engine/route_optimizer.py: scoring\<close>

text \<open>
  A normalized route is a dict; the keys added by later stages (\<open>emissions_kg_co2\<close>,
  \<open>score\<close>, \<open>recommendation\<close>) are optional fields. The summary values come from a
  provider, so they are \<open>pyval\<close>s.
\<close>

record route =
  route_id :: string
  provider :: string
  distance_meters :: pyval
  duration_seconds :: pyval
  traffic_delay_seconds :: pyval
  geometry :: "point list"
  raw_data :: "(string \<times> string) list"
  emissions_kg_co2 :: "real option"
  score :: "int option"
  recommendation :: "string option"

text \<open>\<open>int(x)\<close> on a float truncates towards zero.\<close>

definition py_int :: "real \<Rightarrow> int" where
  "py_int x = (if 0 \<le> x then \<lfloor>x\<rfloor> else \<lceil>x\<rceil>)"

text \<open>\<open>min\<close> and \<open>max\<close> of a non-empty sequence of numbers, left to right.\<close>

fun py_min :: "real list \<Rightarrow> real" where
  "py_min [] = 0"
| "py_min (x # xs) = fold min xs x"

fun py_max :: "real list \<Rightarrow> real" where
  "py_max [] = 0"
| "py_max (x # xs) = fold max xs x"

text \<open>
  \<open>min\<close>, \<open>max\<close> and the subtraction \<open>max_time - min_time\<close> go through only when every
  duration is a number: mixed types fail in the comparison, and strings or \<open>None\<close> alone
  fail in the subtraction.
\<close>

fun durations :: "route list \<Rightarrow> py_error + real list" where
  "durations [] = Inr []"
| "durations (r # rs) =
     (case duration_seconds r of
        PNum d \<Rightarrow> (case durations rs of Inl e \<Rightarrow> Inl e | Inr ds \<Rightarrow> Inr (d # ds))
      | _ \<Rightarrow> Inl (TypeError ''unsupported operand type(s) for duration_seconds''))"

fun emissions :: "route list \<Rightarrow> py_error + real list" where
  "emissions [] = Inr []"
| "emissions (r # rs) =
     (case emissions_kg_co2 r of
        Some m \<Rightarrow> (case emissions rs of Inl e \<Rightarrow> Inl e | Inr ms \<Rightarrow> Inr (m # ms))
      | None \<Rightarrow> Inl (KeyError ''emissions_kg_co2''))"

definition time_weight :: "string \<Rightarrow> real" where
  "time_weight criteria =
     (if criteria = ''time'' then 0.8 else if criteria = ''emissions'' then 0.2 else 0.5)"

definition emissions_weight :: "string \<Rightarrow> real" where
  "emissions_weight criteria =
     (if criteria = ''time'' then 0.2 else if criteria = ''emissions'' then 0.8 else 0.5)"

definition recommendation_of :: "int \<Rightarrow> string" where
  "recommendation_of s =
     (if s \<ge> 80 then ''Highly Recommended''
      else if s \<ge> 60 then ''Recommended''
      else ''Alternative Option'')"

text \<open>One pass of the scoring loop: the route's two fields are set in place.\<close>

definition score_route ::
  "real \<Rightarrow> real \<Rightarrow> real \<Rightarrow> real \<Rightarrow> real \<Rightarrow> real \<Rightarrow> route \<Rightarrow> real \<Rightarrow> real \<Rightarrow> route" where
  "score_route t_weight e_weight min_time time_range min_emissions emissions_range r d m =
     (let time_score = (if time_range > 0 then 1 - ((d - min_time) / time_range) else 1);
          emissions_score =
            (if emissions_range > 0 then 1 - ((m - min_emissions) / emissions_range) else 1);
          s = py_int ((t_weight * time_score + e_weight * emissions_score) * 100)
      in r\<lparr>score := Some s, recommendation := Some (recommendation_of s)\<rparr>)"

definition score_key :: "route \<Rightarrow> int" where
  "score_key r = (case score r of Some s \<Rightarrow> s | None \<Rightarrow> 0)"

text \<open>
  \<open>sorted(routes, key=lambda r: r["score"], reverse=True)\<close>: Python's sort is stable, also
  with \<open>reverse=True\<close>, so it is the stable sort on the negated key.
\<close>

definition sorted_by_score_reverse :: "route list \<Rightarrow> route list" where
  "sorted_by_score_reverse rs = sort_key (\<lambda>r. - score_key r) rs"

definition score_routes :: "route list \<Rightarrow> string \<Rightarrow> py_error + route list" where
  "score_routes routes criteria =
     (if routes = [] then Inr routes
      else
        case durations routes of
          Inl e \<Rightarrow> Inl e
        | Inr ds \<Rightarrow>
            let min_time = py_min ds;
                max_time = py_max ds;
                time_range = max 1 (max_time - min_time)
            in case emissions routes of
                 Inl e \<Rightarrow> Inl e
               | Inr ms \<Rightarrow>
                   let min_emissions = py_min ms;
                       max_emissions = py_max ms;
                       emissions_range = max 0.1 (max_emissions - min_emissions);
                       scored = map (\<lambda>(r, d, m).
                                   score_route (time_weight criteria) (emissions_weight criteria)
                                     min_time time_range min_emissions emissions_range r d m)
                                  (zip routes (zip ds ms))
                   in Inr (sorted_by_score_reverse scored))"

subsection \<open>The score as the specification words it\<close>

text \<open>
  The duration and the emissions of a route that carries both; the minimum and maximum are
  taken over the candidate set.
\<close>

definition duration_of :: "route \<Rightarrow> real" where
  "duration_of r = (case duration_seconds r of PNum d \<Rightarrow> d | _ \<Rightarrow> 0)"

definition emissions_of :: "route \<Rightarrow> real" where
  "emissions_of r = (case emissions_kg_co2 r of Some m \<Rightarrow> m | None \<Rightarrow> 0)"

definition spec_weights :: "string \<Rightarrow> real \<times> real" where
  "spec_weights priority =
     (if priority = ''time'' then (0.8, 0.2)
      else if priority = ''emissions'' then (0.2, 0.8)
      else (0.5, 0.5))"

definition spec_time_score :: "route list \<Rightarrow> route \<Rightarrow> real" where
  "spec_time_score routes r =
     (let min_duration = Min (duration_of ` set routes);
          max_duration = Max (duration_of ` set routes);
          range = max 1 (max_duration - min_duration)
      in 1 - (duration_of r - min_duration) / range)"

definition spec_emissions_score :: "route list \<Rightarrow> route \<Rightarrow> real" where
  "spec_emissions_score routes r =
     (let min_emissions = Min (emissions_of ` set routes);
          max_emissions = Max (emissions_of ` set routes);
          range = max 0.1 (max_emissions - min_emissions)
      in 1 - (emissions_of r - min_emissions) / range)"

definition spec_score_value :: "route list \<Rightarrow> string \<Rightarrow> route \<Rightarrow> real" where
  "spec_score_value routes priority r =
     100 * (fst (spec_weights priority) * spec_time_score routes r
            + snd (spec_weights priority) * spec_emissions_score routes r)"

text \<open>
  The candidates in their original order, each with the truncated score and its tier.
\<close>

definition scored_in_order :: "route list \<Rightarrow> string \<Rightarrow> route list" where
  "scored_in_order routes priority =
     map (\<lambda>r. r\<lparr>score := Some (py_int (spec_score_value routes priority r)),
               recommendation :=
                 Some (recommendation_of (py_int (spec_score_value routes priority r)))\<rparr>)
         routes"

text \<open>Every candidate has a numeric duration and carries its emissions.\<close>

definition scorable :: "route list \<Rightarrow> bool" where
  "scorable routes =
     list_all (\<lambda>r. (case duration_seconds r of PNum d \<Rightarrow> True | _ \<Rightarrow> False)
                    \<and> emissions_kg_co2 r \<noteq> None) routes"

subsection \<open>Example candidate sets\<close>

definition example_route :: "string \<Rightarrow> real \<Rightarrow> real \<Rightarrow> route" where
  "example_route i d m =
     \<lparr>route_id = i, provider = ''demo'', distance_meters = PNum 0, duration_seconds = PNum d,
      traffic_delay_seconds = PNum 0, geometry = [], raw_data = [],
      emissions_kg_co2 = Some m, score = None, recommendation = None\<rparr>"


definition tied_routes :: "route list" where
  "tied_routes = [example_route ''p'' 10 1, example_route ''q'' 0 1,
                  example_route ''r'' 10 1, example_route ''s'' 0 1]"

section \<open>route_engine/route_optimizer.py: the orchestrator\<close>

subsection \<open>Provider data and clients\<close>


text \<open>
  The value a weather response holds under \<open>data\<close>: no such key, \<open>None\<close>, a dict, or
  anything else.
\<close>

datatype data_field = DataAbsent | DataNone | DataDict "string \<rightharpoonup> pyval" | DataOther





subsection \<open>The response\<close>


record metadata =
  traffic_conditions :: "(string \<times> pyval) list option"
  weather_conditions :: "(string \<times> pyval) list option"
  route_count :: "nat option"
  error_details :: "string option"
  generated_at :: string



subsection \<open>Area, traffic and weather\<close>






subsection \<open>The routing providers\<close>




subsection \<open>The dummy routes\<close>










subsection \<open>Normalization and per-route emissions\<close>









subsection \<open>optimize_route\<close>




subsection \<open>The dummy routes as the specification words them\<close>





subsection \<open>Example clients and clock\<close>




section \<open>Properties of the emissions estimators\<close>

text \<open>
  C5. On the path that does not fall back (the vehicle's factors are found, the context
  arguments are numbers and the weather is a string), the estimate is
  \<open>distance_km \<times> base_emission_rate \<times> speed_factor \<times> gradient_factor \<times> payload_factor \<times>
  traffic_factor \<times> weather_factor / 1000\<close> with the factors as the specification defines
  them, where \<open>distance_km\<close> is the distance argument (miles) times 1.60934 and an
  unknown vehicle type is replaced by \<open>Delivery Van\<close>.
\<close>

theorem calculate_emissions_formula:
  assumes "factors (if factors vehicle_type = None then ''Delivery Van'' else vehicle_type) = Some vf"
    and "vf ''base_emission_rate'' = Some rate"
    and "vf ''payload_factor'' = Some vpf"
  shows "calculate_emissions factors distance_miles vehicle_type (PNum avg_speed) (PNum gradient)
           (PNum payload_kg) (PNum congestion) (PStr weather)
         = ((distance_miles * 1.60934) * rate * spec_speed_factor avg_speed
              * spec_gradient_factor gradient * spec_payload_factor payload_kg vpf
              * spec_traffic_factor congestion * spec_weather_factor weather) / 1000"
  using assms
  by (simp add: calculate_emissions_def calculate_emissions_try_def Let_def speed_factor_def
      gradient_factor_def payload_factor_def traffic_factor_def weather_factor_def
      spec_speed_factor_def spec_gradient_factor_def spec_payload_factor_def
      spec_traffic_factor_def spec_weather_factor_def)

theorem calculate_emissions_formula_witness:
  "default_emission_factors ''Box Truck''
     = Some (map_of [(''base_emission_rate'', 450), (''fuel_efficiency'', 8),
                     (''payload_factor'', 0.08)])
   \<and> calculate_emissions default_emission_factors 10 ''Box Truck'' (PNum 20) (PNum (-5))
        (PNum 200) (PNum (1/2)) (PStr ''SNOW'') = 14.02758036504"
  using calculate_emissions_formula
    [where factors = default_emission_factors and vehicle_type = "''Box Truck''"
       and vf = "map_of [(''base_emission_rate'', 450), (''fuel_efficiency'', 8),
                         (''payload_factor'', 0.08)]"
       and rate = 450 and vpf = "0.08" and distance_miles = 10 and avg_speed = 20
       and gradient = "-5" and payload_kg = 200 and congestion = "1/2"
       and weather = "''SNOW''"]
  by (simp add: default_emission_factors_def spec_speed_factor_def spec_gradient_factor_def
      spec_payload_factor_def spec_traffic_factor_def spec_weather_factor_def lower_def
      lower_char_def)



lemma calculate_emissions_try_scale:
  "calculate_emissions_try factors (k * d) vt sp g p t w =
     (case calculate_emissions_try factors d vt sp g p t w of
        Inl e \<Rightarrow> Inl e | Inr x \<Rightarrow> Inr (k * x))"
  by (simp add: calculate_emissions_try_def Let_def split: option.splits sum.splits)

text \<open>
  C9. With every other argument fixed, doubling the distance doubles the estimate, and the
  estimate at distance 0 is 0, on both the factor path and the fallback path.
\<close>

theorem calculate_emissions_linear:
  "calculate_emissions factors (2 * d) vt sp g p t w
     = 2 * calculate_emissions factors d vt sp g p t w
   \<and> calculate_emissions factors 0 vt sp g p t w = 0"
  using calculate_emissions_try_scale [of factors 2 d vt sp g p t w]
    calculate_emissions_try_scale [of factors 0 d vt sp g p t w]
  by (simp add: calculate_emissions_def split: sum.splits)

text \<open>
  C10. The profile-based estimator of prototype.py returns 0 for a configuration with
  neither efficiency key, returns 0 whenever its body raises (it has no
  \<open>distance \<times> 0.4\<close> fallback), and a combustion configuration without \<open>fuel_type\<close> is
  treated as one whose \<open>fuel_type\<close> is diesel.
\<close>

theorem prototype_calculate_emissions_total:
  "(vehicle_config ''fuel_efficiency_l_per_100km'' = None
      \<and> vehicle_config ''energy_efficiency_kwh_per_100km'' = None
     \<longrightarrow> prototype_calculate_emissions config meters vehicle_config = 0)
   \<and> (prototype_calculate_emissions_try config meters vehicle_config = Inl e
     \<longrightarrow> prototype_calculate_emissions config meters vehicle_config = 0)
   \<and> (vehicle_config ''fuel_efficiency_l_per_100km'' \<noteq> None \<and> vehicle_config ''fuel_type'' = None
     \<longrightarrow> prototype_calculate_emissions config meters vehicle_config
         = prototype_calculate_emissions config meters
             (vehicle_config(''fuel_type'' \<mapsto> PStr ''diesel'')))"
  by (auto simp: prototype_calculate_emissions_def prototype_calculate_emissions_try_def Let_def
      split: option.splits sum.splits)

theorem prototype_calculate_emissions_total_witness:
  "prototype_calculate_emissions (Some (map_of [(''diesel'', 2.68), (''electric'', 0.5)])) 100000
       Map.empty = 0
   \<and> prototype_calculate_emissions_try None 100000
       (map_of [(''fuel_efficiency_l_per_100km'', PNum 12)])
       = Inl (RuntimeError ''Configuration not loaded. Call load_config() first.'')
   \<and> prototype_calculate_emissions None 100000
       (map_of [(''fuel_efficiency_l_per_100km'', PNum 12)]) = 0
   \<and> prototype_calculate_emissions (Some (map_of [(''diesel'', 2.68), (''electric'', 0.5)])) 100000
       (map_of [(''fuel_efficiency_l_per_100km'', PNum 12)]) = 32.16
   \<and> prototype_calculate_emissions (Some (map_of [(''diesel'', 2.68), (''electric'', 0.5)])) 100000
       ((map_of [(''fuel_efficiency_l_per_100km'', PNum 12)])(''fuel_type'' \<mapsto> PStr ''diesel''))
       = 32.16"
  using prototype_calculate_emissions_total
    [where vehicle_config = Map.empty
       and config = "Some (map_of [(''diesel'', 2.68), (''electric'', 0.5)])"
       and meters = 100000]
    prototype_calculate_emissions_total
    [where vehicle_config = "map_of [(''fuel_efficiency_l_per_100km'', PNum 12)]"
       and config = None and meters = 100000
       and e = "RuntimeError ''Configuration not loaded. Call load_config() first.''"]
    prototype_calculate_emissions_total
    [where vehicle_config = "map_of [(''fuel_efficiency_l_per_100km'', PNum 12)]"
       and config = "Some (map_of [(''diesel'', 2.68), (''electric'', 0.5)])"
       and meters = 100000]
  by (simp add: prototype_calculate_emissions_def prototype_calculate_emissions_try_def Let_def
      float_mul_def get_emission_factor_def)

section \<open>Properties of the result cache\<close>

text \<open>
  C6. A value put under a key at time \<open>now\<close> is returned by a get at any time \<open>now'\<close> with
  \<open>now' - now < ttl\<close>, in particular at once. A get at a time with
  \<open>now' - timestamp \<ge> ttl\<close> returns nothing, for a fresh entry and for any stored entry;
  the get leaves the cache as it is (it returns only the value). The ttl of a new optimizer
  is 600.
\<close>

theorem cache_put_get:
  "(now' - now < cache_ttl st \<longrightarrow> get_from_cache (add_to_cache st now k v) now' k = Some v)
   \<and> (now' - now \<ge> cache_ttl st \<longrightarrow> get_from_cache (add_to_cache st now k v) now' k = None)
   \<and> (cache st k = Some entry \<and> now' - timestamp entry \<ge> cache_ttl st
        \<longrightarrow> get_from_cache st now' k = None)
   \<and> cache_ttl (init_cache_state :: 'a cache_state) = 600"
  by (simp add: get_from_cache_def add_to_cache_def init_cache_state_def)

theorem cache_put_get_witness:
  "get_from_cache (add_to_cache init_cache_state 1000 ''k'' (7::nat)) 1000 ''k'' = Some 7
   \<and> get_from_cache (add_to_cache init_cache_state 1000 ''k'' (7::nat)) 1599 ''k'' = Some 7
   \<and> get_from_cache (add_to_cache init_cache_state 1000 ''k'' (7::nat)) 1600 ''k'' = None
   \<and> cache (add_to_cache init_cache_state 1000 ''k'' (7::nat)) ''k''
       = Some \<lparr>data = 7, timestamp = 1000\<rparr>
   \<and> get_from_cache (add_to_cache init_cache_state 1000 ''k'' (7::nat)) 2000 ''k'' = None"
  using cache_put_get [where now' = 1000 and now = 1000
      and st = "init_cache_state :: nat cache_state" and k = "''k''" and v = 7]
    cache_put_get [where now' = 1599 and now = 1000
      and st = "init_cache_state :: nat cache_state" and k = "''k''" and v = 7]
    cache_put_get [where now' = 1600 and now = 1000
      and st = "init_cache_state :: nat cache_state" and k = "''k''" and v = 7]
    cache_put_get [where now' = 2000
      and st = "add_to_cache (init_cache_state :: nat cache_state) 1000 ''k'' 7"
      and k = "''k''" and entry = "\<lparr>data = 7, timestamp = 1000\<rparr>"]
  by (simp add: init_cache_state_def add_to_cache_def)

section \<open>Properties of the scorer\<close>

lemma durations_scorable: "scorable rs \<Longrightarrow> durations rs = Inr (map duration_of rs)"
  by (induction rs) (auto simp: scorable_def duration_of_def split: pyval.splits)

lemma emissions_scorable: "scorable rs \<Longrightarrow> emissions rs = Inr (map emissions_of rs)"
  by (induction rs) (auto simp: scorable_def emissions_of_def split: option.splits)

lemma py_min_Min: "xs \<noteq> [] \<Longrightarrow> py_min xs = Min (set xs)"
proof (cases xs)
  case (Cons a as)
  then show ?thesis using Min.set_eq_fold [of a as] by simp
qed simp

lemma py_max_Max: "xs \<noteq> [] \<Longrightarrow> py_max xs = Max (set xs)"
proof (cases xs)
  case (Cons a as)
  then show ?thesis using Max.set_eq_fold [of a as] by simp
qed simp

lemma map_zip3:
  "map (\<lambda>(r, d, m). F r d m) (zip rs (zip (map f rs) (map g rs))) = map (\<lambda>r. F r (f r) (g r)) rs"
  by (induction rs) simp_all

text \<open>
  The loop followed by the sort is the stable descending sort of the candidates scored in
  their original order; the guards \<open>if time_range > 0\<close> and \<open>if emissions_range > 0\<close>
  always take their first branch.
\<close>

lemma score_routes_scorable:
  assumes "routes \<noteq> []" "scorable routes"
  shows "score_routes routes criteria
           = Inr (sorted_by_score_reverse (scored_in_order routes criteria))"
proof -
  have tr: "max 1 (Max (duration_of ` set routes) - Min (duration_of ` set routes)) > (0::real)"
    by simp
  have er: "max 0.1 (Max (emissions_of ` set routes) - Min (emissions_of ` set routes)) > (0::real)"
    by simp
  have w: "fst (spec_weights criteria) = time_weight criteria"
          "snd (spec_weights criteria) = emissions_weight criteria"
    by (simp_all add: spec_weights_def time_weight_def emissions_weight_def)
  show ?thesis
    using assms tr er
    by (simp add: score_routes_def durations_scorable emissions_scorable Let_def map_zip3
        py_min_Min py_max_Max scored_in_order_def score_route_def spec_score_value_def
        spec_time_score_def spec_emissions_score_def w mult.commute)
qed

lemma score_key_scored:
  "r \<in> set (scored_in_order routes c) \<Longrightarrow> score r = Some (score_key r)"
  by (auto simp: scored_in_order_def score_key_def)




text \<open>
  C8. For a non-empty candidate set (numeric durations, emissions present) the returned
  sequence is sorted by score in descending order, and for every score the routes with that
  score appear in the order they have in the input.
\<close>

theorem score_routes_sorted_stable:
  assumes "routes \<noteq> []" and "scorable routes"
  shows "\<exists>out. score_routes routes criteria = Inr out
           \<and> sorted_wrt (\<lambda>a b. score_key a \<ge> score_key b) out
           \<and> (\<forall>k. filter (\<lambda>r. score r = Some k) out
                    = filter (\<lambda>r. score r = Some k) (scored_in_order routes criteria))"
proof -
  let ?xs = "scored_in_order routes criteria"
  let ?out = "sort_key (\<lambda>r. - score_key r) ?xs"
  have 1: "score_routes routes criteria = Inr ?out"
    using score_routes_scorable [OF assms] by (simp add: sorted_by_score_reverse_def)
  have "sorted (map (\<lambda>r. - score_key r) ?out)"
    by (rule sorted_sort_key)
  then have 2: "sorted_wrt (\<lambda>a b. score_key a \<ge> score_key b) ?out"
    by (simp add: sorted_map)
  have 3: "filter (\<lambda>r. score r = Some k) ?out = filter (\<lambda>r. score r = Some k) ?xs" for k
  proof -
    have a: "filter (\<lambda>r. score r = Some k) ?out = filter (\<lambda>r. - score_key r = - k) ?out"
      by (rule filter_cong) (auto dest: score_key_scored)
    have b: "filter (\<lambda>r. score r = Some k) ?xs = filter (\<lambda>r. - score_key r = - k) ?xs"
      by (rule filter_cong) (auto dest: score_key_scored)
    show ?thesis
      unfolding a b by (rule sort_key_stable)
  qed
  show ?thesis using 1 2 3 by blast
qed

text \<open>
  Four candidates given in the order p, q, r, s with scores 20, 100, 20, 100: the result
  is q, s, p, r.
\<close>

theorem score_routes_sorted_stable_witness:
  "tied_routes \<noteq> [] \<and> scorable tied_routes
   \<and> (\<exists>out. score_routes tied_routes ''time'' = Inr out
           \<and> sorted_wrt (\<lambda>a b. score_key a \<ge> score_key b) out
           \<and> (\<forall>k. filter (\<lambda>r. score r = Some k) out
                    = filter (\<lambda>r. score r = Some k) (scored_in_order tied_routes ''time'')))
   \<and> map_sum id (map (\<lambda>r. (route_id r, score r))) (score_routes tied_routes ''time'')
       = Inr [(''q'', Some 100), (''s'', Some 100), (''p'', Some 20), (''r'', Some 20)]"
proof -
  have "map_sum id (map (\<lambda>r. (route_id r, score r))) (score_routes tied_routes ''time'')
       = Inr [(''q'', Some 100), (''s'', Some 100), (''p'', Some 20), (''r'', Some 20)]"
    by (simp add: tied_routes_def example_route_def score_routes_def Let_def score_route_def
        time_weight_def emissions_weight_def py_int_def sorted_by_score_reverse_def
        score_key_def recommendation_of_def)
  moreover have "tied_routes \<noteq> []" "scorable tied_routes"
    by (simp_all add: tied_routes_def example_route_def scorable_def)
  ultimately show ?thesis
    using score_routes_sorted_stable [of tied_routes "''time''"] by blast
qed

section \<open>Properties of the cache key\<close>

text \<open>
  C3. The key joins its fields with \<open>-\<close> and does not escape a \<open>-\<close> inside a field, so
  the vehicle type \<open>Semi\<close> with the criteria \<open>Truck-time\<close> and the vehicle type
  \<open>Semi-Truck\<close> with the criteria \<open>time\<close> get one key, whatever the float formatting
  and for the same origin, destination and stops.
\<close>

theorem generate_cache_key_collision:
  "generate_cache_key fmt (13.0827, 80.2707) (12.9941, 80.1709) None ''Semi'' ''Truck-time''
     = generate_cache_key fmt (13.0827, 80.2707) (12.9941, 80.1709) None ''Semi-Truck'' ''time''
   \<and> (''Semi'', ''Truck-time'') \<noteq> (''Semi-Truck'', ''time'')"
  by (simp add: generate_cache_key_def)

section \<open>Properties of the dummy routes\<close>










section \<open>Properties of optimize_route\<close>









end
